theory Spec2Isabelle
  imports Main "HOL-Library.Sublist"
begin

section \<open>Vendor runtime resolver of the packaged application\<close>

text \<open>
  Shallow embedding of the packaged-dependency manager (the module that declares
  \<open>PACKAGED_DEPENDENCIES\<close> with the \<open>node\<close> and \<open>uv\<close> entries): \<open>getSystemArchKey\<close>,
  \<open>buildEnhancedPath\<close>, \<open>getExecutablePath\<close>, \<open>validateExecutable\<close> and
  \<open>getValidationReport\<close>.

  JavaScript strings are modelled as \<open>string\<close>; \<open>undefined\<close> as \<open>None\<close>. Everything the
  module reads from its surroundings (\<open>process.platform\<close>, \<open>process.arch\<close>,
  \<open>process.env.PATH\<close>, \<open>app.isPackaged\<close>, \<open>process.resourcesPath\<close>, the file system and the
  library functions \<open>path.join\<close> and \<open>path.dirname\<close>) is a field of the record \<open>host\<close>.
  Everything it does besides returning (log calls and file-system calls) is recorded, in
  order, in a list of \<open>effect\<close>s returned next to the result.
\<close>

subsection \<open>Data model\<close>

record dependency =
  name :: string
  executable :: string
  paths :: "(string \<times> string) list"

definition PACKAGED_DEPENDENCIES :: "dependency list" where
  "PACKAGED_DEPENDENCIES =
    [\<lparr>name = ''uv'', executable = ''uv'', paths =
        [(''darwin-arm64'', ''vendor/uv-darwin-arm64/uv-aarch64-apple-darwin/uv''),
         (''darwin-x64'', ''vendor/uv-darwin-x64/uv-x86_64-apple-darwin/uv''),
         (''linux-x64'', ''vendor/uv-linux-x64/uv-x86_64-unknown-linux-gnu/uv''),
         (''win32-x64'', ''vendor/uv-win32-x64/uv-x86_64-pc-windows-msvc/uv.exe'')]\<rparr>,
     \<lparr>name = ''node'', executable = ''node'', paths =
        [(''darwin-arm64'', ''vendor/node-darwin-arm64/node-v20.18.0-darwin-arm64/bin/node''),
         (''darwin-x64'', ''vendor/node-darwin-x64/node-v20.18.0-darwin-x64/bin/node''),
         (''linux-x64'', ''vendor/node-linux-x64/node-v20.18.0-linux-x64/bin/node''),
         (''win32-x64'', ''vendor/node-win32-x64/node-v20.18.0-win-x64/node.exe'')]\<rparr>]"

text \<open>An exception thrown by \<open>stat\<close> or \<open>readFile\<close> (a rejected promise, awaited).\<close>

datatype io_error = IOError string

record host =
  platform :: string
  arch :: string
  envPATH :: "string option"
  isPackaged :: bool
  resourcesPath :: string
  existsSync :: "string \<Rightarrow> bool"
  stat :: "string \<Rightarrow> io_error + nat"
  readFile :: "string \<Rightarrow> io_error + string"
  join :: "string list \<Rightarrow> string"
  dirname :: "string \<Rightarrow> string"

datatype level = Debug | Info | Warn | Error

datatype effect =
    Log level string
  | LogErr level string io_error
  | FsExists string
  | FsStat string
  | FsRead string

subsection \<open>JavaScript primitives used by the module\<close>

text \<open>\<open>s.startsWith(p)\<close> and \<open>s.includes(p)\<close>.\<close>

definition startsWith :: "string \<Rightarrow> string \<Rightarrow> bool" where
  "startsWith s p = prefix p s"

fun includesStr :: "string \<Rightarrow> string \<Rightarrow> bool" where
  "includesStr [] p = (p = [])"
| "includesStr (c # cs) p = (prefix p (c # cs) \<or> includesStr cs p)"

text \<open>
  \<open>p.trim()\<close> used as a condition: true when something is left after the white space is
  removed. Of the white-space code units of ECMAScript, those that fit a \<open>char\<close> are
  U+0009 to U+000D, U+0020 and U+00A0.
\<close>

definition isWhiteSpace :: "char \<Rightarrow> bool" where
  "isWhiteSpace c = (c \<in> set [CHR 0x09, CHR 0x0A, CHR 0x0B, CHR 0x0C, CHR 0x0D, CHR 0x20, CHR 0xA0])"

definition trimTruthy :: "string \<Rightarrow> bool" where
  "trimTruthy p = (\<not> list_all isWhiteSpace p)"

text \<open>
  \<open>Array.from(new Set(xs))\<close>: the elements in insertion order, an element already in the
  set is not added again.
\<close>

fun setAdd :: "'a list \<Rightarrow> 'a list \<Rightarrow> 'a list" where
  "setAdd acc [] = acc"
| "setAdd acc (x # xs) = setAdd (if x \<in> set acc then acc else acc @ [x]) xs"

definition arrayFromSet :: "'a list \<Rightarrow> 'a list" where
  "arrayFromSet xs = setAdd [] xs"

text \<open>\<open>xs.join(sep)\<close> on an array of strings.\<close>

fun joinWith :: "string \<Rightarrow> string list \<Rightarrow> string" where
  "joinWith sep [] = []"
| "joinWith sep [x] = x"
| "joinWith sep (x # y # ys) = x @ sep @ joinWith sep (y # ys)"

subsection \<open>Platform-arch key\<close>

definition getSystemArchKey :: "host \<Rightarrow> string" where
  "getSystemArchKey h =
    (if platform h = ''darwin'' then
       (if arch h = ''arm64'' then ''darwin-arm64'' else ''darwin-x64'')
     else if platform h = ''linux'' then ''linux-x64''
     else if platform h = ''win32'' then ''win32-x64''
     else platform h @ ''-'' @ arch h)"

text \<open>
  \<open>dep.paths[archKey]\<close> followed by the test \<open>if (relativePath)\<close>: a missing key gives
  \<open>undefined\<close>, and the empty string is falsy as well.
\<close>

definition relativePathOf :: "dependency \<Rightarrow> string \<Rightarrow> string option" where
  "relativePathOf dep archKey =
    (case map_of (paths dep) archKey of
       None \<Rightarrow> None
     | Some rel \<Rightarrow> if rel = [] then None else Some rel)"

subsection \<open>Enhanced search path\<close>

text \<open>
  The body of the \<open>forEach\<close> callback of \<open>buildEnhancedPath\<close>, on the pair of the array
  \<open>pathParts\<close> and the effects so far. \<open>pathParts.unshift(binDir)\<close> puts \<open>binDir\<close> in front.
\<close>

definition addDependencyPath ::
  "host \<Rightarrow> dependency \<Rightarrow> string list \<times> effect list \<Rightarrow> string list \<times> effect list" where
  "addDependencyPath h dep st =
    (case relativePathOf dep (getSystemArchKey h) of
       None \<Rightarrow> st
     | Some relativePath \<Rightarrow>
        (let unpackedPath = join h [resourcesPath h, ''app.asar.unpacked'', relativePath];
             binDir = dirname h unpackedPath
         in if existsSync h unpackedPath
            then (binDir # fst st,
                  snd st @ [FsExists unpackedPath,
                    Log Debug (''[Packaging] Added '' @ name dep @ '' to PATH: '' @ binDir)])
            else (fst st,
                  snd st @ [FsExists unpackedPath,
                    Log Warn (''[Packaging] '' @ name dep @ '' not found at: '' @ unpackedPath)])))"

definition basePath :: "host \<Rightarrow> string" where
  "basePath h = (case envPATH h of None \<Rightarrow> [] | Some p \<Rightarrow> p)"

definition pathParts :: "host \<Rightarrow> string list \<times> effect list" where
  "pathParts h =
    (if isPackaged h
     then foldl (\<lambda>st dep. addDependencyPath h dep st) ([basePath h], []) PACKAGED_DEPENDENCIES
     else ([basePath h], []))"

definition pathSeparator :: "host \<Rightarrow> string" where
  "pathSeparator h = (if platform h = ''win32'' then '';'' else '':'')"

definition uniquePaths :: "host \<Rightarrow> string list" where
  "uniquePaths h = arrayFromSet (filter trimTruthy (fst (pathParts h)))"

definition buildEnhancedPath :: "host \<Rightarrow> string \<times> effect list" where
  "buildEnhancedPath h = (joinWith (pathSeparator h) (uniquePaths h), snd (pathParts h))"

text \<open>
  What one dependency contributes to the front of \<open>pathParts\<close>: the directory of its bundle
  file when the table has a path for the key and the file exists, nothing otherwise.
\<close>

definition bundleDirOf :: "host \<Rightarrow> dependency \<Rightarrow> string list" where
  "bundleDirOf h dep =
    (case relativePathOf dep (getSystemArchKey h) of
       None \<Rightarrow> []
     | Some relativePath \<Rightarrow>
        (let unpackedPath = join h [resourcesPath h, ''app.asar.unpacked'', relativePath]
         in if existsSync h unpackedPath then [dirname h unpackedPath] else []))"

definition bundleDirs :: "host \<Rightarrow> string list" where
  "bundleDirs h =
    (if isPackaged h then concat (rev (map (bundleDirOf h) PACKAGED_DEPENDENCIES)) else [])"

text \<open>
  The directory entries of a search-path string as the operating system reads them: the
  pieces between the separators. This is the reading of the result by its consumer, not
  code of the module.
\<close>

fun pathEntries :: "char \<Rightarrow> string \<Rightarrow> string list" where
  "pathEntries sep [] = [[]]"
| "pathEntries sep (c # cs) =
    (if c = sep then [] # pathEntries sep cs
     else (case pathEntries sep cs of [] \<Rightarrow> [[c]] | w # ws \<Rightarrow> (c # w) # ws))"

subsection \<open>Executable path\<close>

text \<open>
  The \<open>try\<close> block of \<open>getExecutablePath\<close>. \<open>Inl e\<close>: the block threw \<open>e\<close>;
  \<open>Inr (Some r)\<close>: it executed \<open>return r\<close>; \<open>Inr None\<close>: it ran to its end.
\<close>

definition tryValidate ::
  "host \<Rightarrow> string \<Rightarrow> string \<Rightarrow> (io_error + string option) \<times> effect list" where
  "tryValidate h exe execPath =
    (case stat h execPath of
       Inl e \<Rightarrow> (Inl e, [FsStat execPath])
     | Inr fileSize \<Rightarrow>
        if fileSize < 1000 then
          (case readFile h execPath of
             Inl e \<Rightarrow> (Inl e, [FsStat execPath, FsRead execPath])
           | Inr content \<Rightarrow>
              if startsWith content ''#!/bin/bash'' \<or> includesStr content ''echo''
              then (Inr (Some exe),
                    [FsStat execPath, FsRead execPath,
                     Log Warn (''[Packaging] Vendor '' @ exe
                       @ '' is a script, not a binary. Falling back to system '' @ exe @ ''.'')])
              else (Inr None, [FsStat execPath, FsRead execPath]))
        else (Inr None, [FsStat execPath]))"

text \<open>
  \<open>getExecutablePath\<close>. The result is \<open>Inl e\<close> when the call throws \<open>e\<close> (the promise is
  rejected), \<open>Inr None\<close> when it returns \<open>undefined\<close>, \<open>Inr (Some p)\<close> when it returns \<open>p\<close>.
\<close>

definition getExecutablePath ::
  "host \<Rightarrow> string \<Rightarrow> (io_error + string option) \<times> effect list" where
  "getExecutablePath h exe =
    (let archKey = getSystemArchKey h in
     if isPackaged h then
       (case find (\<lambda>d. name d = exe) PACKAGED_DEPENDENCIES of
          None \<Rightarrow> (Inr None, [Log Error (''[Packaging] Unknown executable: '' @ exe)])
        | Some dep \<Rightarrow>
           (case relativePathOf dep archKey of
              None \<Rightarrow>
                (Inr None,
                 [Log Error (''[Packaging] No path configured for '' @ exe @ '' on ''
                    @ platform h @ '' ('' @ archKey @ '')'')])
            | Some relativePath \<Rightarrow>
               (let execPath = join h [resourcesPath h, ''app.asar.unpacked'', relativePath] in
                if existsSync h execPath then
                  (case tryValidate h exe execPath of
                     (Inl e, tr) \<Rightarrow>
                       (Inr (Some exe),
                        FsExists execPath # tr
                          @ [LogErr Warn (''[Packaging] Failed to validate vendor '' @ exe @ '':'') e])
                   | (Inr (Some r), tr) \<Rightarrow> (Inr (Some r), FsExists execPath # tr)
                   | (Inr None, tr) \<Rightarrow>
                       (Inr (Some execPath),
                        FsExists execPath # tr
                          @ [Log Debug (''[Packaging] Found '' @ exe @ '' at: '' @ execPath)]))
                else if exe = ''node'' then
                  (Inr (Some exe),
                   [FsExists execPath,
                    Log Warn (''[Packaging] '' @ exe @ '' not found at: '' @ execPath),
                    Log Info (''[Packaging] Falling back to system '' @ exe)])
                else
                  (Inr None,
                   [FsExists execPath,
                    Log Warn (''[Packaging] '' @ exe @ '' not found at: '' @ execPath)]))))
     else (Inr (Some exe), []))"

subsection \<open>Liveness check\<close>

text \<open>
  \<open>validateExecutable\<close> registers handlers on the spawned child and a 3000 ms timer. The
  state shared by the handlers: the flag \<open>isResolved\<close>, the value the promise was resolved
  with (if any), the number of calls of \<open>process.kill('SIGKILL')\<close>, and whether
  \<open>clearTimeout\<close> has been called. An exit code is \<open>None\<close> for JavaScript's \<open>null\<close>.
\<close>

datatype proc_event = OnClose "int option" | OnError | OnExit "int option" | OnTimeout

record probe =
  isResolved :: bool
  settled :: "bool option"
  kills :: nat
  timerCleared :: bool

definition probe0 :: probe where
  "probe0 = \<lparr>isResolved = False, settled = None, kills = 0, timerCleared = False\<rparr>"

definition cleanup :: "probe \<Rightarrow> probe" where
  "cleanup s =
    (if \<not> isResolved s then s\<lparr>isResolved := True, kills := kills s + 1\<rparr> else s)"

text \<open>\<open>resolve(value)\<close>: only the first call settles the promise.\<close>

definition resolve :: "bool \<Rightarrow> probe \<Rightarrow> probe" where
  "resolve v s = (case settled s of None \<Rightarrow> s\<lparr>settled := Some v\<rparr> | Some w \<Rightarrow> s)"

definition resolveWith :: "bool \<Rightarrow> probe \<Rightarrow> probe" where
  "resolveWith v s =
    (if \<not> isResolved s then resolve v (cleanup (s\<lparr>isResolved := True\<rparr>)) else s)"

text \<open>
  The handlers in their order of registration: for \<open>close\<close>, \<open>error\<close> and \<open>exit\<close> first the
  one that resolves, then the one that clears the timer. A cleared timer does not fire.
\<close>

fun handle :: "proc_event \<Rightarrow> probe \<Rightarrow> probe" where
  "handle (OnClose code) s = (resolveWith (code = Some 0) s)\<lparr>timerCleared := True\<rparr>"
| "handle OnError s = (resolveWith False s)\<lparr>timerCleared := True\<rparr>"
| "handle (OnExit code) s = (resolveWith (code = Some 0) s)\<lparr>timerCleared := True\<rparr>"
| "handle OnTimeout s = (if timerCleared s then s else resolveWith False s)"

definition runProbe :: "proc_event list \<Rightarrow> probe" where
  "runProbe evs = foldl (\<lambda>s e. handle e s) probe0 evs"

text \<open>
  The events of one probe are given by the surroundings: \<open>spawned cmd\<close> is the sequence of
  events delivered for \<open>spawn(cmd, ['--version'], {stdio: 'ignore', shell: true})\<close>, with
  \<open>OnTimeout\<close> at the place where the 3000 ms have elapsed. When the child delivers nothing
  more (it hangs), the pending timer still fires: the final \<open>OnTimeout\<close>.
  The result is the value the awaited promise settles with, \<open>None\<close> if it never settles.
\<close>

definition probeOf :: "(string \<Rightarrow> proc_event list) \<Rightarrow> string \<Rightarrow> probe" where
  "probeOf spawned cmd = runProbe (spawned cmd @ [OnTimeout])"

definition validateExecutable :: "(string \<Rightarrow> proc_event list) \<Rightarrow> string \<Rightarrow> bool option" where
  "validateExecutable spawned cmd = settled (probeOf spawned cmd)"

text \<open>
  The invariant of the handlers' state used in the proofs: the flag is set exactly when the
  promise is settled, a cleared timer means the flag is set, and \<open>kill\<close> was not called.
\<close>

definition probeInv :: "probe \<Rightarrow> bool" where
  "probeInv s = (isResolved s = (settled s \<noteq> None) \<and> (timerCleared s \<longrightarrow> isResolved s) \<and> kills s = 0)"

subsection \<open>Validation report\<close>

record dep_report =
  path :: "string option"
  available :: bool

record report =
  report_platform :: string
  report_isPackaged :: bool
  dependencies :: "string \<rightharpoonup> dep_report"

text \<open>
  The \<open>for\<close> loop of \<open>getValidationReport\<close> over the remaining dependencies. The result is
  \<open>None\<close> when an awaited promise never settles, \<open>Some (Inl e)\<close> when an awaited call throws.
\<close>

fun reportLoop ::
  "host \<Rightarrow> (string \<Rightarrow> proc_event list) \<Rightarrow> dependency list \<Rightarrow> report \<times> effect list
    \<Rightarrow> (io_error + report) option \<times> effect list" where
  "reportLoop h spawned [] (rep, tr) = (Some (Inr rep), tr)"
| "reportLoop h spawned (dep # deps) (rep, tr) =
    (case getExecutablePath h (name dep) of
       (Inl e, tr1) \<Rightarrow> (Some (Inl e), tr @ tr1)
     | (Inr execPath, tr1) \<Rightarrow>
        (case validateExecutable spawned (name dep) of
           None \<Rightarrow> (None, tr @ tr1)
         | Some isAvailable \<Rightarrow>
            reportLoop h spawned deps
              (rep\<lparr>dependencies := (dependencies rep)
                    (name dep \<mapsto> \<lparr>path = execPath, available = isAvailable\<rparr>)\<rparr>,
               tr @ tr1 @
                 [if execPath \<noteq> None \<and> execPath \<noteq> Some [] \<and> isAvailable
                  then Log Info (''[Validation] '' @ name dep @ '' validated successfully'')
                  else if execPath \<noteq> None \<and> execPath \<noteq> Some []
                  then Log Warn (''[Validation] '' @ name dep @ '' found but not executable'')
                  else Log Warn (''[Validation] '' @ name dep @ '' not found'')])))"

definition getValidationReport ::
  "host \<Rightarrow> (string \<Rightarrow> proc_event list) \<Rightarrow> (io_error + report) option \<times> effect list" where
  "getValidationReport h spawned =
    reportLoop h spawned PACKAGED_DEPENDENCIES
      (\<lparr>report_platform = platform h, report_isPackaged = isPackaged h,
        dependencies = Map.empty\<rparr>, [])"

subsection \<open>Concrete hosts\<close>

text \<open>
  Stand-ins for \<open>path.join\<close> and \<open>path.dirname\<close> on segments that are already normalised,
  for the concrete hosts below: the segments separated by \<open>/\<close>, and the path without its
  last segment.
\<close>

definition joinPosix :: "string list \<Rightarrow> string" where
  "joinPosix segs = joinWith ''/'' segs"

definition dirnamePosix :: "string \<Rightarrow> string" where
  "dirnamePosix p = rev (tl (dropWhile (\<lambda>c. c \<noteq> CHR ''/'') (rev p)))"

text \<open>
  A host whose resources root is \<open>/res\<close>: platform, architecture, the packaged flag and
  the inherited search path are arguments, and the files of the bundle are given as a list
  of path, size and content. \<open>stat\<close> and \<open>readFile\<close> fail on a path that is not listed.
\<close>

definition fileAt :: "(string \<times> nat \<times> string) list \<Rightarrow> string \<Rightarrow> (nat \<times> string) option" where
  "fileAt files p = map_of files p"

definition hostWith ::
  "string \<Rightarrow> string \<Rightarrow> bool \<Rightarrow> string option \<Rightarrow> (string \<times> nat \<times> string) list \<Rightarrow> host" where
  "hostWith plat ar packaged inherited files =
    \<lparr>platform = plat, arch = ar, envPATH = inherited, isPackaged = packaged,
     resourcesPath = ''/res'',
     existsSync = (\<lambda>p. fileAt files p \<noteq> None),
     stat = (\<lambda>p. case fileAt files p of
                  None \<Rightarrow> Inl (IOError ''ENOENT'') | Some (sz, c) \<Rightarrow> Inr sz),
     readFile = (\<lambda>p. case fileAt files p of
                  None \<Rightarrow> Inl (IOError ''ENOENT'') | Some (sz, c) \<Rightarrow> Inr c),
     join = joinPosix, dirname = dirnamePosix\<rparr>"

definition nodeBundlePath :: string where
  "nodeBundlePath = ''/res/app.asar.unpacked/vendor/node-linux-x64/node-v20.18.0-linux-x64/bin/node''"

definition uvBundlePath :: string where
  "uvBundlePath = ''/res/app.asar.unpacked/vendor/uv-linux-x64/uv-x86_64-unknown-linux-gnu/uv''"

definition nodeBundleDir :: string where
  "nodeBundleDir = ''/res/app.asar.unpacked/vendor/node-linux-x64/node-v20.18.0-linux-x64/bin''"

definition uvBundleDir :: string where
  "uvBundleDir = ''/res/app.asar.unpacked/vendor/uv-linux-x64/uv-x86_64-unknown-linux-gnu''"

text \<open>
  A machine on which \<open>uv\<close> and the bundled \<open>node\<close> binary run and exit with status 0, and
  every other command (the bare \<open>node\<close> among them) fails to start.
\<close>

definition uvAndBundleRun :: "string \<Rightarrow> proc_event list" where
  "uvAndBundleRun c =
    (if c = ''uv'' \<or> c = nodeBundlePath then [OnExit (Some 0), OnClose (Some 0)] else [OnError])"

text \<open>The stub of the specification: \<open>#!/bin/bash\<close>, a line feed, \<open>echo "x"\<close>.\<close>

definition stubContent :: string where
  "stubContent = ''#!/bin/bash'' @ [CHR 0x0A] @ ''echo '' @ [CHR 0x22] @ ''x'' @ [CHR 0x22]"

subsection \<open>Auxiliary facts\<close>

lemma hostWith_sel [simp]:
  "platform (hostWith plat ar packaged inherited files) = plat"
  "arch (hostWith plat ar packaged inherited files) = ar"
  "envPATH (hostWith plat ar packaged inherited files) = inherited"
  "isPackaged (hostWith plat ar packaged inherited files) = packaged"
  "resourcesPath (hostWith plat ar packaged inherited files) = ''/res''"
  "existsSync (hostWith plat ar packaged inherited files) q = (fileAt files q \<noteq> None)"
  "stat (hostWith plat ar packaged inherited files) q =
     (case fileAt files q of None \<Rightarrow> Inl (IOError ''ENOENT'') | Some (sz, c) \<Rightarrow> Inr sz)"
  "readFile (hostWith plat ar packaged inherited files) q =
     (case fileAt files q of None \<Rightarrow> Inl (IOError ''ENOENT'') | Some (sz, c) \<Rightarrow> Inr c)"
  "join (hostWith plat ar packaged inherited files) = joinPosix"
  "dirname (hostWith plat ar packaged inherited files) = dirnamePosix"
  by (simp_all add: hostWith_def)

text \<open>The primitives agree with the library's notions of substring and of a non-blank string.\<close>

lemma includesStr_sublist: "includesStr s p = sublist p s"
  by (induction s) (simp_all add: sublist_Cons_right)

lemma trimTruthy_iff: "trimTruthy p = (\<exists>c \<in> set p. \<not> isWhiteSpace c)"
  by (simp add: trimTruthy_def list_all_iff)

lemma takeWhile_until_first:
  "c \<notin> set p \<Longrightarrow> takeWhile (\<lambda>x. x \<noteq> c) (p @ c # a) = p"
  by (induction p) auto

lemma dash_split_unique:
  assumes "p @ ''-'' @ a = k1 @ ''-'' @ k2" and "CHR ''-'' \<notin> set k1" and "CHR ''-'' \<notin> set k2"
  shows "p = k1"
proof -
  have "length (filter (\<lambda>c. c = CHR ''-'') (k1 @ ''-'' @ k2)) = 1"
    using assms(2,3) by (auto simp: filter_empty_conv)
  then have "length (filter (\<lambda>c. c = CHR ''-'') (p @ ''-'' @ a)) = 1"
    using assms(1) by simp
  then have "filter (\<lambda>c. c = CHR ''-'') p = []"
    by simp
  then have nodash: "CHR ''-'' \<notin> set p"
    by (auto simp: filter_empty_conv)
  have "takeWhile (\<lambda>c. c \<noteq> CHR ''-'') (p @ ''-'' @ a) = p"
    using nodash by (simp add: takeWhile_until_first)
  moreover have "takeWhile (\<lambda>c. c \<noteq> CHR ''-'') (k1 @ ''-'' @ k2) = k1"
    using assms(2) by (simp add: takeWhile_until_first)
  ultimately show ?thesis
    using assms(1) by simp
qed

subsection \<open>Sets in insertion order, joining, and the parts of the path\<close>

lemma setAdd_append: "setAdd acc (xs @ ys) = setAdd (setAdd acc xs) ys"
  by (induction xs arbitrary: acc) simp_all

lemma set_setAdd: "set (setAdd acc xs) = set acc \<union> set xs"
  by (induction xs arbitrary: acc) auto

lemma distinct_setAdd: "distinct acc \<Longrightarrow> distinct (setAdd acc xs)"
  by (induction xs arbitrary: acc) auto

lemma distinct_arrayFromSet: "distinct (arrayFromSet xs)"
  by (simp add: arrayFromSet_def distinct_setAdd)

lemma set_arrayFromSet: "set (arrayFromSet xs) = set xs"
  by (simp add: arrayFromSet_def set_setAdd)

lemma arrayFromSet_snoc:
  "arrayFromSet (xs @ [x]) = (if x \<in> set xs then arrayFromSet xs else arrayFromSet xs @ [x])"
  by (simp add: arrayFromSet_def setAdd_append set_setAdd)

lemma arrayFromSet_remdups: "arrayFromSet xs = rev (remdups (rev xs))"
  by (induction xs rule: rev_induct) (simp_all add: arrayFromSet_snoc, simp add: arrayFromSet_def)

lemma joinWith_snoc:
  "xs \<noteq> [] \<Longrightarrow> joinWith sep (xs @ [x]) = joinWith sep xs @ sep @ x"
  by (induction sep xs rule: joinWith.induct) simp_all

lemma joinWith_suffix_last: "xs \<noteq> [] \<Longrightarrow> suffix (last xs) (joinWith sep xs)"
  by (induction sep xs rule: joinWith.induct) (auto simp: suffix_append)

lemma addDependencyPath_fst:
  "fst (addDependencyPath h dep st) = bundleDirOf h dep @ fst st"
  by (simp add: addDependencyPath_def bundleDirOf_def Let_def split: option.splits)

lemma foldl_addDependencyPath_fst:
  "fst (foldl (\<lambda>st dep. addDependencyPath h dep st) st deps)
    = concat (rev (map (bundleDirOf h) deps)) @ fst st"
  by (induction deps arbitrary: st) (simp_all add: addDependencyPath_fst)

lemma pathParts_fst: "fst (pathParts h) = bundleDirs h @ [basePath h]"
  by (simp add: pathParts_def bundleDirs_def foldl_addDependencyPath_fst)

lemma uniquePaths_eq:
  "uniquePaths h = arrayFromSet (filter trimTruthy (bundleDirs h) @ (if trimTruthy (basePath h) then [basePath h] else []))"
  by (simp add: uniquePaths_def pathParts_fst)

lemma pathParts_development: "\<not> isPackaged h \<Longrightarrow> pathParts h = ([basePath h], [])"
  by (simp add: pathParts_def)

subsection \<open>Unfolding the resolver\<close>

lemma tryValidate_big:
  "stat h p = Inr sz \<Longrightarrow> 1000 \<le> sz \<Longrightarrow> tryValidate h exe p = (Inr None, [FsStat p])"
  by (simp add: tryValidate_def)

lemma tryValidate_small:
  "stat h p = Inr sz \<Longrightarrow> sz < 1000 \<Longrightarrow> readFile h p = Inr content \<Longrightarrow>
   tryValidate h exe p =
     (if startsWith content ''#!/bin/bash'' \<or> includesStr content ''echo''
      then (Inr (Some exe), [FsStat p, FsRead p,
              Log Warn (''[Packaging] Vendor '' @ exe
                @ '' is a script, not a binary. Falling back to system '' @ exe @ ''.'')])
      else (Inr None, [FsStat p, FsRead p]))"
  by (simp add: tryValidate_def)

lemma tryValidate_stat_error:
  "stat h p = Inl e \<Longrightarrow> tryValidate h exe p = (Inl e, [FsStat p])"
  by (simp add: tryValidate_def)

lemma tryValidate_read_error:
  "stat h p = Inr sz \<Longrightarrow> sz < 1000 \<Longrightarrow> readFile h p = Inl e \<Longrightarrow>
   tryValidate h exe p = (Inl e, [FsStat p, FsRead p])"
  by (simp add: tryValidate_def)

lemma tryValidate_result:
  "fst (tryValidate h exe p) \<in> {Inr None, Inr (Some exe)} \<or> (\<exists>e. fst (tryValidate h exe p) = Inl e)"
  by (auto simp: tryValidate_def split: sum.splits)

lemma getExecutablePath_packaged:
  assumes "isPackaged h" and "find (\<lambda>d. name d = exe) PACKAGED_DEPENDENCIES = Some dep"
    and "relativePathOf dep (getSystemArchKey h) = Some rel"
    and p: "p = join h [resourcesPath h, ''app.asar.unpacked'', rel]"
  shows "getExecutablePath h exe =
    (if existsSync h p then
       (case tryValidate h exe p of
          (Inl e, tr) \<Rightarrow>
            (Inr (Some exe),
             FsExists p # tr
               @ [LogErr Warn (''[Packaging] Failed to validate vendor '' @ exe @ '':'') e])
        | (Inr (Some r), tr) \<Rightarrow> (Inr (Some r), FsExists p # tr)
        | (Inr None, tr) \<Rightarrow>
            (Inr (Some p),
             FsExists p # tr @ [Log Debug (''[Packaging] Found '' @ exe @ '' at: '' @ p)]))
     else if exe = ''node'' then
       (Inr (Some exe),
        [FsExists p,
         Log Warn (''[Packaging] '' @ exe @ '' not found at: '' @ p),
         Log Info (''[Packaging] Falling back to system '' @ exe)])
     else
       (Inr None,
        [FsExists p, Log Warn (''[Packaging] '' @ exe @ '' not found at: '' @ p)]))"
  unfolding p getExecutablePath_def Let_def using assms(1-3) by simp

lemma find_dependency:
  "find (\<lambda>d. name d = exe) PACKAGED_DEPENDENCIES =
    (if exe = ''uv'' then Some (PACKAGED_DEPENDENCIES ! 0)
     else if exe = ''node'' then Some (PACKAGED_DEPENDENCIES ! 1) else None)"
  by (simp add: PACKAGED_DEPENDENCIES_def)

lemma linux_node_rel:
  "relativePathOf (PACKAGED_DEPENDENCIES ! 1) (getSystemArchKey (hostWith ''linux'' ar k i f))
    = Some ''vendor/node-linux-x64/node-v20.18.0-linux-x64/bin/node''"
  by (simp add: relativePathOf_def PACKAGED_DEPENDENCIES_def getSystemArchKey_def)

lemma linux_uv_rel:
  "relativePathOf (PACKAGED_DEPENDENCIES ! 0) (getSystemArchKey (hostWith ''linux'' ar k i f))
    = Some ''vendor/uv-linux-x64/uv-x86_64-unknown-linux-gnu/uv''"
  by (simp add: relativePathOf_def PACKAGED_DEPENDENCIES_def getSystemArchKey_def)

lemma linux_node_path:
  "nodeBundlePath = join (hostWith plat ar k i f) [resourcesPath (hostWith plat ar k i f),
     ''app.asar.unpacked'', ''vendor/node-linux-x64/node-v20.18.0-linux-x64/bin/node'']"
  by (simp add: joinPosix_def nodeBundlePath_def)

lemma linux_uv_path:
  "uvBundlePath = join (hostWith plat ar k i f) [resourcesPath (hostWith plat ar k i f),
     ''app.asar.unpacked'', ''vendor/uv-linux-x64/uv-x86_64-unknown-linux-gnu/uv'']"
  by (simp add: joinPosix_def uvBundlePath_def)

lemma fileAt_single [simp]: "fileAt [(p, sz, c)] p = Some (sz, c)"
  by (simp add: fileAt_def)

lemma fileAt_empty [simp]: "fileAt [] p = None"
  by (simp add: fileAt_def)

lemma packaged_exists_result:
  assumes "isPackaged h" and "find (\<lambda>d. name d = exe) PACKAGED_DEPENDENCIES = Some dep"
    and "relativePathOf dep (getSystemArchKey h) = Some rel"
    and "p = join h [resourcesPath h, ''app.asar.unpacked'', rel]"
    and ex: "existsSync h p"
  shows "fst (getExecutablePath h exe) = Inr (Some p) \<or> fst (getExecutablePath h exe) = Inr (Some exe)"
proof -
  obtain r tr where t: "tryValidate h exe p = (r, tr)"
    by (cases "tryValidate h exe p")
  have "r = Inr None \<or> r = Inr (Some exe) \<or> (\<exists>e. r = Inl e)"
    using tryValidate_result[of h exe p] t by auto
  then show ?thesis
    using ex t by (auto simp: getExecutablePath_packaged[OF assms(1-4)])
qed

lemma packaged_missing_result:
  assumes "isPackaged h" and "find (\<lambda>d. name d = exe) PACKAGED_DEPENDENCIES = Some dep"
    and "relativePathOf dep (getSystemArchKey h) = Some rel"
    and "p = join h [resourcesPath h, ''app.asar.unpacked'', rel]"
    and ex: "\<not> existsSync h p"
  shows "fst (getExecutablePath h exe) = (if exe = ''node'' then Inr (Some exe) else Inr None)"
  using ex by (simp add: getExecutablePath_packaged[OF assms(1-4)])

lemma packaged_io_failure:
  assumes "isPackaged h" and "find (\<lambda>d. name d = exe) PACKAGED_DEPENDENCIES = Some dep"
    and "relativePathOf dep (getSystemArchKey h) = Some rel"
    and "p = join h [resourcesPath h, ''app.asar.unpacked'', rel]"
    and ex: "existsSync h p"
    and io: "stat h p = Inl e \<or> (\<exists>sz. stat h p = Inr sz \<and> sz < 1000 \<and> readFile h p = Inl e)"
  shows "fst (getExecutablePath h exe) = Inr (Some exe)
    \<and> LogErr Warn (''[Packaging] Failed to validate vendor '' @ exe @ '':'') e
        \<in> set (snd (getExecutablePath h exe))"
  using ex io
  by (auto simp: getExecutablePath_packaged[OF assms(1-4)] tryValidate_stat_error tryValidate_read_error)

lemma packaged_unknown:
  assumes "isPackaged h" and "find (\<lambda>d. name d = exe) PACKAGED_DEPENDENCIES = None"
  shows "getExecutablePath h exe = (Inr None, [Log Error (''[Packaging] Unknown executable: '' @ exe)])"
  using assms by (simp add: getExecutablePath_def)

lemma packaged_no_mapping:
  assumes "isPackaged h" and "find (\<lambda>d. name d = exe) PACKAGED_DEPENDENCIES = Some dep"
    and "relativePathOf dep (getSystemArchKey h) = None"
  shows "getExecutablePath h exe =
    (Inr None, [Log Error (''[Packaging] No path configured for '' @ exe @ '' on ''
                    @ platform h @ '' ('' @ getSystemArchKey h @ '')'')])"
  using assms by (simp add: getExecutablePath_def)

lemma getExecutablePath_returns:
  "\<exists>r. fst (getExecutablePath h exe) = Inr r"
proof (cases "isPackaged h")
  case False
  then show ?thesis by (simp add: getExecutablePath_def)
next
  case True
  show ?thesis
  proof (cases "find (\<lambda>d. name d = exe) PACKAGED_DEPENDENCIES")
    case None
    then show ?thesis using True by (simp add: packaged_unknown)
  next
    case (Some dep)
    show ?thesis
    proof (cases "relativePathOf dep (getSystemArchKey h)")
      case None
      then show ?thesis using True Some by (simp add: packaged_no_mapping)
    next
      case (Some rel)
      note rel = this
      show ?thesis
      proof (cases "existsSync h (join h [resourcesPath h, ''app.asar.unpacked'', rel])")
        case True
        from packaged_exists_result[OF \<open>isPackaged h\<close> \<open>find _ _ = Some dep\<close> rel refl True]
        show ?thesis by auto
      next
        case False
        from packaged_missing_result[OF \<open>isPackaged h\<close> \<open>find _ _ = Some dep\<close> rel refl False]
        show ?thesis by auto
      qed
    qed
  qed
qed

lemma stub_is_stub: "startsWith stubContent ''#!/bin/bash'' \<and> includesStr stubContent ''echo''"
  by (simp add: stubContent_def startsWith_def)

lemma supported_key:
  assumes "platform h \<in> {''darwin'', ''linux'', ''win32''}"
  shows "getSystemArchKey h \<in> {''darwin-arm64'', ''darwin-x64'', ''linux-x64'', ''win32-x64''}"
  using assms by (auto simp: getSystemArchKey_def)

lemma table_complete:
  assumes "k \<in> {''darwin-arm64'', ''darwin-x64'', ''linux-x64'', ''win32-x64''}"
    and "dep \<in> set PACKAGED_DEPENDENCIES"
  shows "\<exists>rel. relativePathOf dep k = Some rel"
  using assms by (auto simp: PACKAGED_DEPENDENCIES_def relativePathOf_def)

lemma pathEntries_nonempty: "pathEntries sep s \<noteq> []"
  by (induction s) (auto split: list.splits)

lemma pathEntries_single: "sep \<notin> set b \<Longrightarrow> pathEntries sep b = [b]"
  by (induction b) auto

lemma pathEntries_length: "length (pathEntries sep s) = Suc (length (filter (\<lambda>c. c = sep) s))"
  by (induction s) (auto split: list.splits)

lemma pathEntries_last: "sep \<notin> set b \<Longrightarrow> last (pathEntries sep (a @ sep # b)) = b"
proof (induction a)
  case Nil
  then show ?case by (simp add: pathEntries_single)
next
  case (Cons c a)
  have "length (pathEntries sep (a @ sep # b)) \<ge> 2"
    by (simp add: pathEntries_length)
  then obtain w rest where wr: "pathEntries sep (a @ sep # b) = w # rest" and "1 \<le> length rest"
    by (cases "pathEntries sep (a @ sep # b)") auto
  then obtain v ws where "rest = v # ws"
    by (cases rest) auto
  then show ?case using Cons wr by auto
qed

lemma bundleDirOf_exists:
  assumes "relativePathOf dep (getSystemArchKey h) = Some rel"
    and "p = join h [resourcesPath h, ''app.asar.unpacked'', rel]" and "existsSync h p"
  shows "bundleDirOf h dep = [dirname h p]"
  using assms(1,3) unfolding assms(2) bundleDirOf_def by simp

lemma bundle_dirnames:
  "dirnamePosix nodeBundlePath = nodeBundleDir" "dirnamePosix uvBundlePath = uvBundleDir"
  by (simp_all add: dirnamePosix_def nodeBundlePath_def uvBundlePath_def nodeBundleDir_def uvBundleDir_def)

lemma bundle_dirs_facts:
  "nodeBundleDir \<noteq> uvBundleDir" "trimTruthy nodeBundleDir" "trimTruthy uvBundleDir"
  "CHR '':'' \<notin> set uvBundleDir" "nodeBundlePath \<noteq> uvBundlePath"
  by (simp_all add: nodeBundleDir_def uvBundleDir_def trimTruthy_def isWhiteSpace_def
      nodeBundlePath_def uvBundlePath_def)

lemma both_bundles_dirs:
  "bundleDirs (hostWith ''linux'' ''x64'' True inherited
     [(nodeBundlePath, 5000000, ''ELF''), (uvBundlePath, 5000000, ''ELF'')]) = [nodeBundleDir, uvBundleDir]"
proof -
  let ?h = "hostWith ''linux'' ''x64'' True inherited
     [(nodeBundlePath, 5000000, ''ELF''), (uvBundlePath, 5000000, ''ELF'')]"
  have n: "existsSync ?h nodeBundlePath" by (simp add: fileAt_def)
  have u: "existsSync ?h uvBundlePath" by (simp add: fileAt_def bundle_dirs_facts)
  have bn: "bundleDirOf ?h (PACKAGED_DEPENDENCIES ! 1) = [nodeBundleDir]"
    using bundleDirOf_exists[OF linux_node_rel linux_node_path n] by (simp add: bundle_dirnames)
  have bu: "bundleDirOf ?h (PACKAGED_DEPENDENCIES ! 0) = [uvBundleDir]"
    using bundleDirOf_exists[OF linux_uv_rel linux_uv_path u] by (simp add: bundle_dirnames)
  have m: "map f PACKAGED_DEPENDENCIES = [f (PACKAGED_DEPENDENCIES ! 0), f (PACKAGED_DEPENDENCIES ! 1)]"
    for f :: "dependency \<Rightarrow> string list"
    by (simp add: PACKAGED_DEPENDENCIES_def)
  show ?thesis
    using bn bu by (simp add: bundleDirs_def m)
qed

subsection \<open>The handlers of the liveness check\<close>

lemma resolveWith_unresolved:
  "\<not> isResolved s \<Longrightarrow> settled s = None \<Longrightarrow>
    resolveWith v s = s\<lparr>isResolved := True, settled := Some v\<rparr>"
  by (simp add: resolveWith_def cleanup_def resolve_def)

lemma resolveWith_resolved: "isResolved s \<Longrightarrow> resolveWith v s = s"
  by (simp add: resolveWith_def)

lemma resolveWith_kills: "kills (resolveWith v s) = kills s"
  by (simp add: resolveWith_def cleanup_def resolve_def split: option.splits)

lemma handle_kills: "kills (handle e s) = kills s"
  by (cases e) (simp_all add: resolveWith_kills)

lemma runProbe_from_kills: "kills (foldl (\<lambda>s e. handle e s) s evs) = kills s"
  by (induction evs arbitrary: s) (simp_all add: handle_kills)

lemma probeInv_handle: "probeInv s \<Longrightarrow> probeInv (handle e s)"
  by (cases e; cases "isResolved s")
     (auto simp: probeInv_def resolveWith_unresolved resolveWith_resolved)

lemma probeInv_foldl: "probeInv s \<Longrightarrow> probeInv (foldl (\<lambda>s e. handle e s) s evs)"
  by (induction evs arbitrary: s) (simp_all add: probeInv_handle)

lemma probeInv_probe0: "probeInv probe0"
  by (simp add: probeInv_def probe0_def)

lemma handle_keeps_settled:
  "probeInv s \<Longrightarrow> settled s = Some b \<Longrightarrow> settled (handle e s) = Some b"
  by (cases e) (auto simp: probeInv_def resolveWith_resolved)

lemma foldl_keeps_settled:
  "probeInv s \<Longrightarrow> settled s = Some b \<Longrightarrow> settled (foldl (\<lambda>s e. handle e s) s evs) = Some b"
  by (induction evs arbitrary: s) (simp_all add: handle_keeps_settled probeInv_handle)

lemma timeout_settles: "probeInv s \<Longrightarrow> settled (handle OnTimeout s) \<noteq> None"
  by (cases "isResolved s") (auto simp: probeInv_def resolveWith_unresolved resolveWith_resolved)

lemma validateExecutable_settles: "\<exists>b. validateExecutable spawned cmd = Some b"
proof -
  have "probeInv (runProbe (spawned cmd))"
    unfolding runProbe_def by (rule probeInv_foldl[OF probeInv_probe0])
  then have "settled (handle OnTimeout (runProbe (spawned cmd))) \<noteq> None"
    by (rule timeout_settles)
  then show ?thesis
    by (auto simp: validateExecutable_def probeOf_def runProbe_def)
qed

lemma getValidationReport_unfold:
  assumes u: "getExecutablePath h ''uv'' = (Inr pu, tu)" and n: "getExecutablePath h ''node'' = (Inr pn, tn)"
    and au: "validateExecutable spawned ''uv'' = Some au" and an: "validateExecutable spawned ''node'' = Some an"
  shows "\<exists>tr. getValidationReport h spawned =
    (Some (Inr \<lparr>report_platform = platform h, report_isPackaged = isPackaged h,
        dependencies = [''uv'' \<mapsto> \<lparr>path = pu, available = au\<rparr>,
                        ''node'' \<mapsto> \<lparr>path = pn, available = an\<rparr>]\<rparr>), tr)"
  by (simp add: getValidationReport_def PACKAGED_DEPENDENCIES_def u n au an)

lemma validateExecutable_events: "spawned cmd = evs \<Longrightarrow> validateExecutable spawned cmd = settled (runProbe (evs @ [OnTimeout]))"
  by (simp add: validateExecutable_def probeOf_def)

lemma runProbe_exit_zero: "settled (runProbe [OnExit (Some 0), OnClose (Some 0), OnTimeout]) = Some True"
  by (simp add: runProbe_def probe0_def resolveWith_def cleanup_def resolve_def)

lemma runProbe_error: "settled (runProbe [OnError, OnTimeout]) = Some False"
  by (simp add: runProbe_def probe0_def resolveWith_def cleanup_def resolve_def)

subsection \<open>The platform-arch key\<close>

lemma unknown_platform_key_no_match:
  assumes "platform h \<noteq> ''darwin''" "platform h \<noteq> ''linux''" "platform h \<noteq> ''win32''"
    and dep: "dep \<in> set PACKAGED_DEPENDENCIES"
  shows "map_of (paths dep) (platform h @ ''-'' @ arch h) = None"
proof -
  have a: "platform h @ ''-'' @ arch h \<noteq> ''darwin'' @ ''-'' @ ''arm64''"
    using dash_split_unique[of "platform h" "arch h" "''darwin''" "''arm64''"] assms(1) by auto
  have b: "platform h @ ''-'' @ arch h \<noteq> ''darwin'' @ ''-'' @ ''x64''"
    using dash_split_unique[of "platform h" "arch h" "''darwin''" "''x64''"] assms(1) by auto
  have c: "platform h @ ''-'' @ arch h \<noteq> ''linux'' @ ''-'' @ ''x64''"
    using dash_split_unique[of "platform h" "arch h" "''linux''" "''x64''"] assms(2) by auto
  have d: "platform h @ ''-'' @ arch h \<noteq> ''win32'' @ ''-'' @ ''x64''"
    using dash_split_unique[of "platform h" "arch h" "''win32''" "''x64''"] assms(3) by auto
  show ?thesis
    using dep a b c d unfolding PACKAGED_DEPENDENCIES_def by auto
qed

text \<open>
  C8. On \<open>darwin\<close> the key is \<open>darwin-arm64\<close> when the reported architecture is \<open>arm64\<close>
  and \<open>darwin-x64\<close> otherwise; on \<open>linux\<close> and \<open>win32\<close> it is \<open>linux-x64\<close> and \<open>win32-x64\<close>
  whatever the architecture; for any other platform it is the raw \<open>{os}-{arch}\<close> string,
  and no dependency of the table has a path under that key.
\<close>

theorem getSystemArchKey_table:
  "(platform h = ''darwin'' \<and> arch h = ''arm64'' \<longrightarrow> getSystemArchKey h = ''darwin-arm64'')
   \<and> (platform h = ''darwin'' \<and> arch h \<noteq> ''arm64'' \<longrightarrow> getSystemArchKey h = ''darwin-x64'')
   \<and> (platform h = ''linux'' \<longrightarrow> getSystemArchKey h = ''linux-x64'')
   \<and> (platform h = ''win32'' \<longrightarrow> getSystemArchKey h = ''win32-x64'')
   \<and> (platform h \<notin> {''darwin'', ''linux'', ''win32''} \<longrightarrow>
        getSystemArchKey h = platform h @ ''-'' @ arch h
        \<and> (\<forall>dep \<in> set PACKAGED_DEPENDENCIES. map_of (paths dep) (getSystemArchKey h) = None))"
  using unknown_platform_key_no_match[of h] by (auto simp: getSystemArchKey_def)

theorem getSystemArchKey_table_witness:
  "getSystemArchKey (hostWith ''darwin'' ''arm64'' True None []) = ''darwin-arm64''
   \<and> getSystemArchKey (hostWith ''darwin'' ''ia32'' True None []) = ''darwin-x64''
   \<and> getSystemArchKey (hostWith ''linux'' ''arm64'' True None []) = ''linux-x64''
   \<and> getSystemArchKey (hostWith ''win32'' ''arm64'' True None []) = ''win32-x64''
   \<and> getSystemArchKey (hostWith ''freebsd'' ''x64'' True None []) = ''freebsd-x64''
   \<and> map_of (paths (PACKAGED_DEPENDENCIES ! 0))
         (getSystemArchKey (hostWith ''freebsd'' ''x64'' True None [])) = None
   \<and> map_of (paths (PACKAGED_DEPENDENCIES ! 1))
         (getSystemArchKey (hostWith ''freebsd'' ''x64'' True None [])) = None"
  using getSystemArchKey_table[of "hostWith ''darwin'' ''arm64'' True None []"]
    getSystemArchKey_table[of "hostWith ''darwin'' ''ia32'' True None []"]
    getSystemArchKey_table[of "hostWith ''linux'' ''arm64'' True None []"]
    getSystemArchKey_table[of "hostWith ''win32'' ''arm64'' True None []"]
    getSystemArchKey_table[of "hostWith ''freebsd'' ''x64'' True None []"]
  by (auto simp: PACKAGED_DEPENDENCIES_def)

subsection \<open>The executable path resolver\<close>

text \<open>
  C6. When the packaged flag is false, \<open>getExecutablePath\<close> returns the bare command name it
  was given, whatever the file system holds, and does nothing else: no file-system call
  (and no log call) is made.
\<close>

theorem getExecutablePath_development:
  "\<not> isPackaged h \<Longrightarrow> getExecutablePath h exe = (Inr (Some exe), [])"
  by (simp add: getExecutablePath_def)

theorem getExecutablePath_development_witness:
  "\<not> isPackaged (hostWith ''linux'' ''x64'' False (Some ''/usr/bin'') [])
   \<and> getExecutablePath (hostWith ''linux'' ''x64'' False (Some ''/usr/bin'') []) ''node'' = (Inr (Some ''node''), [])
   \<and> getExecutablePath (hostWith ''linux'' ''x64'' False (Some ''/usr/bin'') []) ''uv'' = (Inr (Some ''uv''), [])"
  using getExecutablePath_development[of "hostWith ''linux'' ''x64'' False (Some ''/usr/bin'') []" "''node''"]
    getExecutablePath_development[of "hostWith ''linux'' ''x64'' False (Some ''/usr/bin'') []" "''uv''"]
  by simp

text \<open>
  C5. In packaged mode, when the bundle file of a declared dependency exists at the expected
  absolute path and \<open>stat\<close> reports a size of at least 1000 bytes, \<open>getExecutablePath\<close>
  returns that absolute path, and the file's content is never read: the only file-system
  calls are the existence test and \<open>stat\<close>.
\<close>

theorem getExecutablePath_large_file:
  assumes "isPackaged h" and "find (\<lambda>d. name d = exe) PACKAGED_DEPENDENCIES = Some dep"
    and "relativePathOf dep (getSystemArchKey h) = Some rel"
    and "p = join h [resourcesPath h, ''app.asar.unpacked'', rel]"
    and "existsSync h p" and "stat h p = Inr sz" and "1000 \<le> sz"
  shows "fst (getExecutablePath h exe) = Inr (Some p)
    \<and> snd (getExecutablePath h exe) =
         [FsExists p, FsStat p, Log Debug (''[Packaging] Found '' @ exe @ '' at: '' @ p)]
    \<and> (\<forall>q. FsRead q \<notin> set (snd (getExecutablePath h exe)))"
  using assms by (simp add: getExecutablePath_packaged[OF assms(1-4)] tryValidate_big)

theorem getExecutablePath_large_file_witness:
  "existsSync (hostWith ''linux'' ''x64'' True (Some ''/usr/bin'') [(nodeBundlePath, 5000000, ''ELF'')]) nodeBundlePath
   \<and> stat (hostWith ''linux'' ''x64'' True (Some ''/usr/bin'') [(nodeBundlePath, 5000000, ''ELF'')]) nodeBundlePath
       = Inr 5000000
   \<and> fst (getExecutablePath (hostWith ''linux'' ''x64'' True (Some ''/usr/bin'') [(nodeBundlePath, 5000000, ''ELF'')]) ''node'')
     = Inr (Some nodeBundlePath)
   \<and> (\<forall>q. FsRead q \<notin> set (snd (getExecutablePath
         (hostWith ''linux'' ''x64'' True (Some ''/usr/bin'') [(nodeBundlePath, 5000000, ''ELF'')]) ''node'')))"
proof -
  let ?h = "hostWith ''linux'' ''x64'' True (Some ''/usr/bin'') [(nodeBundlePath, 5000000, ''ELF'')]"
  have 1: "isPackaged ?h" by simp
  have 2: "find (\<lambda>d. name d = ''node'') PACKAGED_DEPENDENCIES = Some (PACKAGED_DEPENDENCIES ! 1)"
    by (simp add: find_dependency)
  have 5: "existsSync ?h nodeBundlePath" by simp
  have 6: "stat ?h nodeBundlePath = Inr 5000000" by simp
  have 7: "(1000::nat) \<le> 5000000" by simp
  show ?thesis
    using getExecutablePath_large_file[OF 1 2 linux_node_rel linux_node_path 5 6 7] 5 6 by blast
qed

text \<open>
  C1, as the code has it. In packaged mode, when the bundle file of a declared dependency
  exists at the expected path, \<open>stat\<close> reports fewer than 1000 bytes and the content can be
  read, \<open>getExecutablePath\<close> reads the content and returns the bare command name exactly when
  the content starts with \<open>#!/bin/bash\<close> or contains \<open>echo\<close>: either condition alone is
  enough. Otherwise it returns the absolute path. The content \<open>#!/bin/bash\<close>, line feed,
  \<open>echo "x"\<close> resolves to the command name.
\<close>

theorem getExecutablePath_small_file:
  assumes "isPackaged h" and "find (\<lambda>d. name d = exe) PACKAGED_DEPENDENCIES = Some dep"
    and "relativePathOf dep (getSystemArchKey h) = Some rel"
    and "p = join h [resourcesPath h, ''app.asar.unpacked'', rel]"
    and "existsSync h p" and "stat h p = Inr sz" and "sz < 1000" and "readFile h p = Inr content"
  shows "fst (getExecutablePath h exe) =
      Inr (Some (if startsWith content ''#!/bin/bash'' \<or> includesStr content ''echo'' then exe else p))
    \<and> FsRead p \<in> set (snd (getExecutablePath h exe))"
  using assms(5-8) by (simp add: getExecutablePath_packaged[OF assms(1-4)] tryValidate_small)

theorem getExecutablePath_small_file_witness:
  "stat (hostWith ''linux'' ''x64'' True None [(nodeBundlePath, 20, stubContent)]) nodeBundlePath = Inr 20
   \<and> readFile (hostWith ''linux'' ''x64'' True None [(nodeBundlePath, 20, stubContent)]) nodeBundlePath
       = Inr stubContent
   \<and> fst (getExecutablePath (hostWith ''linux'' ''x64'' True None [(nodeBundlePath, 20, stubContent)]) ''node'')
       = Inr (Some ''node'')
   \<and> fst (getExecutablePath (hostWith ''linux'' ''x64'' True None [(nodeBundlePath, 3, ''ELF'')]) ''node'')
       = Inr (Some nodeBundlePath)"
proof -
  let ?h = "hostWith ''linux'' ''x64'' True None [(nodeBundlePath, 20, stubContent)]"
  let ?g = "hostWith ''linux'' ''x64'' True None [(nodeBundlePath, 3, ''ELF'')]"
  have f: "find (\<lambda>d. name d = ''node'') PACKAGED_DEPENDENCIES = Some (PACKAGED_DEPENDENCIES ! 1)"
    by (simp add: find_dependency)
  have h1: "isPackaged ?h" and h5: "existsSync ?h nodeBundlePath"
    and h6: "stat ?h nodeBundlePath = Inr 20" and h8: "readFile ?h nodeBundlePath = Inr stubContent"
    by simp_all
  have g1: "isPackaged ?g" and g5: "existsSync ?g nodeBundlePath"
    and g6: "stat ?g nodeBundlePath = Inr 3" and g8: "readFile ?g nodeBundlePath = Inr ''ELF''"
    by simp_all
  have lt: "(20::nat) < 1000" "(3::nat) < 1000" by simp_all
  have nostub: "\<not> (startsWith ''ELF'' ''#!/bin/bash'' \<or> includesStr ''ELF'' ''echo'')"
    by (simp add: startsWith_def)
  show ?thesis
    using getExecutablePath_small_file[OF h1 f linux_node_rel linux_node_path h5 h6 lt(1) h8]
      getExecutablePath_small_file[OF g1 f linux_node_rel linux_node_path g5 g6 lt(2) g8]
      stub_is_stub nostub h6 h8
    by simp
qed

text \<open>
  C1 as stated asks for both conditions, a small file with only one of them being returned
  as the absolute path. A 7-byte bundle file \<open>echo hi\<close> has no shebang line and contains
  \<open>echo\<close>; the resolver returns \<open>node\<close> for it, not the absolute path.
\<close>

theorem stub_needs_only_one_condition:
  "\<not> startsWith ''echo hi'' ''#!''
   \<and> includesStr ''echo hi'' ''echo''
   \<and> stat (hostWith ''linux'' ''x64'' True None [(nodeBundlePath, 7, ''echo hi'')]) nodeBundlePath = Inr 7
   \<and> fst (getExecutablePath (hostWith ''linux'' ''x64'' True None [(nodeBundlePath, 7, ''echo hi'')]) ''node'')
       = Inr (Some ''node'')
   \<and> fst (getExecutablePath (hostWith ''linux'' ''x64'' True None [(nodeBundlePath, 7, ''echo hi'')]) ''node'')
       \<noteq> Inr (Some nodeBundlePath)"
proof -
  let ?h = "hostWith ''linux'' ''x64'' True None [(nodeBundlePath, 7, ''echo hi'')]"
  have f: "find (\<lambda>d. name d = ''node'') PACKAGED_DEPENDENCIES = Some (PACKAGED_DEPENDENCIES ! 1)"
    by (simp add: find_dependency)
  have h1: "isPackaged ?h" and h5: "existsSync ?h nodeBundlePath"
    and h6: "stat ?h nodeBundlePath = Inr 7" and h8: "readFile ?h nodeBundlePath = Inr ''echo hi''"
    by simp_all
  have t: "tryValidate ?h ''node'' nodeBundlePath =
    (Inr (Some ''node''), [FsStat nodeBundlePath, FsRead nodeBundlePath,
       Log Warn (''[Packaging] Vendor '' @ ''node''
                @ '' is a script, not a binary. Falling back to system '' @ ''node'' @ ''.'')])"
    using tryValidate_small[OF h6 _ h8, of "''node''"] by (simp add: startsWith_def)
  have r: "fst (getExecutablePath ?h ''node'') = Inr (Some ''node'')"
    using h5 by (simp add: getExecutablePath_packaged[OF h1 f linux_node_rel linux_node_path] t)
  have ne: "''node'' \<noteq> nodeBundlePath"
    by (simp add: nodeBundlePath_def)
  have a: "\<not> startsWith ''echo hi'' ''#!''" by (simp add: startsWith_def)
  have b: "includesStr ''echo hi'' ''echo''" by simp
  show ?thesis using a b h6 r ne by simp
qed

text \<open>
  C4. In packaged mode \<open>getExecutablePath\<close> never throws, whatever name it is given and
  whatever the platform-arch key is. An unknown dependency name and a missing path for the
  key are each logged at error level and give \<open>undefined\<close>. Otherwise the file is looked up
  at the resources root joined with \<open>app.asar.unpacked\<close> and the table's relative path: if
  it exists, the result is that absolute path or the bare command name; if it does not, the
  result is the bare command name for \<open>node\<close> and \<open>undefined\<close> for any other dependency.
  A failure of \<open>stat\<close> or of \<open>readFile\<close> while validating is caught, logged at warn level
  and gives the bare command name.
\<close>

theorem getExecutablePath_packaged_never_throws:
  assumes "isPackaged h"
  shows "(\<exists>r. fst (getExecutablePath h exe) = Inr r)
    \<and> (find (\<lambda>d. name d = exe) PACKAGED_DEPENDENCIES = None \<longrightarrow>
         getExecutablePath h exe =
           (Inr None, [Log Error (''[Packaging] Unknown executable: '' @ exe)]))
    \<and> (\<forall>dep. find (\<lambda>d. name d = exe) PACKAGED_DEPENDENCIES = Some dep \<longrightarrow>
         (relativePathOf dep (getSystemArchKey h) = None \<longrightarrow>
            getExecutablePath h exe =
              (Inr None, [Log Error (''[Packaging] No path configured for '' @ exe @ '' on ''
                 @ platform h @ '' ('' @ getSystemArchKey h @ '')'')]))
       \<and> (\<forall>rel p. relativePathOf dep (getSystemArchKey h) = Some rel
              \<and> p = join h [resourcesPath h, ''app.asar.unpacked'', rel] \<longrightarrow>
            (existsSync h p \<longrightarrow>
               fst (getExecutablePath h exe) = Inr (Some p)
               \<or> fst (getExecutablePath h exe) = Inr (Some exe))
          \<and> (\<not> existsSync h p \<longrightarrow>
               fst (getExecutablePath h exe) = (if exe = ''node'' then Inr (Some exe) else Inr None))
          \<and> (\<forall>e. existsSync h p
                 \<and> (stat h p = Inl e \<or> (\<exists>sz. stat h p = Inr sz \<and> sz < 1000 \<and> readFile h p = Inl e)) \<longrightarrow>
               fst (getExecutablePath h exe) = Inr (Some exe)
               \<and> LogErr Warn (''[Packaging] Failed to validate vendor '' @ exe @ '':'') e
                    \<in> set (snd (getExecutablePath h exe)))))"
proof (intro conjI allI impI)
  show "\<exists>r. fst (getExecutablePath h exe) = Inr r"
    by (rule getExecutablePath_returns)
next
  assume "find (\<lambda>d. name d = exe) PACKAGED_DEPENDENCIES = None"
  then show "getExecutablePath h exe =
      (Inr None, [Log Error (''[Packaging] Unknown executable: '' @ exe)])"
    using assms by (rule packaged_unknown[rotated])
next
  fix dep
  assume "find (\<lambda>d. name d = exe) PACKAGED_DEPENDENCIES = Some dep"
    and "relativePathOf dep (getSystemArchKey h) = None"
  then show "getExecutablePath h exe =
      (Inr None, [Log Error (''[Packaging] No path configured for '' @ exe @ '' on ''
         @ platform h @ '' ('' @ getSystemArchKey h @ '')'')])"
    using assms by (simp add: packaged_no_mapping)
next
  fix dep rel p
  assume f: "find (\<lambda>d. name d = exe) PACKAGED_DEPENDENCIES = Some dep"
    and rp: "relativePathOf dep (getSystemArchKey h) = Some rel
      \<and> p = join h [resourcesPath h, ''app.asar.unpacked'', rel]"
  from rp have r: "relativePathOf dep (getSystemArchKey h) = Some rel"
    and p: "p = join h [resourcesPath h, ''app.asar.unpacked'', rel]" by simp_all
  {
    assume "existsSync h p"
    then show "fst (getExecutablePath h exe) = Inr (Some p)
        \<or> fst (getExecutablePath h exe) = Inr (Some exe)"
      by (rule packaged_exists_result[OF assms f r p])
  next
    assume "\<not> existsSync h p"
    then show "fst (getExecutablePath h exe) = (if exe = ''node'' then Inr (Some exe) else Inr None)"
      by (rule packaged_missing_result[OF assms f r p])
  next
    fix e
    assume io: "existsSync h p
      \<and> (stat h p = Inl e \<or> (\<exists>sz. stat h p = Inr sz \<and> sz < 1000 \<and> readFile h p = Inl e))"
    from io have ex: "existsSync h p"
      and st: "stat h p = Inl e \<or> (\<exists>sz. stat h p = Inr sz \<and> sz < 1000 \<and> readFile h p = Inl e)"
      by simp_all
    from packaged_io_failure[OF assms f r p ex st]
    show "fst (getExecutablePath h exe) = Inr (Some exe)"
      and "LogErr Warn (''[Packaging] Failed to validate vendor '' @ exe @ '':'') e
             \<in> set (snd (getExecutablePath h exe))"
      by simp_all
  }
qed


theorem getExecutablePath_packaged_never_throws_witness:
  "isPackaged (hostWith ''linux'' ''x64'' True None [])
   \<and> getExecutablePath (hostWith ''linux'' ''x64'' True None []) ''bun''
       = (Inr None, [Log Error ''[Packaging] Unknown executable: bun''])
   \<and> getExecutablePath (hostWith ''freebsd'' ''x64'' True None []) ''node''
       = (Inr None, [Log Error ''[Packaging] No path configured for node on freebsd (freebsd-x64)''])
   \<and> fst (getExecutablePath (hostWith ''linux'' ''x64'' True None []) ''uv'') = Inr None
   \<and> fst (getExecutablePath (hostWith ''linux'' ''x64'' True None []) ''node'') = Inr (Some ''node'')
   \<and> fst (getExecutablePath
         ((hostWith ''linux'' ''x64'' True None [(nodeBundlePath, 5000000, ''ELF'')])
            \<lparr>stat := \<lambda>p. Inl (IOError ''EACCES'')\<rparr>) ''node'') = Inr (Some ''node'')"
proof -
  let ?l = "hostWith ''linux'' ''x64'' True None []"
  let ?f = "hostWith ''freebsd'' ''x64'' True None []"
  let ?e = "(hostWith ''linux'' ''x64'' True None [(nodeBundlePath, 5000000, ''ELF'')])
              \<lparr>stat := \<lambda>p. Inl (IOError ''EACCES'')\<rparr>"
  have pl: "isPackaged ?l" and pf: "isPackaged ?f" and pe: "isPackaged ?e"
    by simp_all
  have fb: "find (\<lambda>d. name d = ''bun'') PACKAGED_DEPENDENCIES = None"
    and fn: "find (\<lambda>d. name d = ''node'') PACKAGED_DEPENDENCIES = Some (PACKAGED_DEPENDENCIES ! 1)"
    and fu: "find (\<lambda>d. name d = ''uv'') PACKAGED_DEPENDENCIES = Some (PACKAGED_DEPENDENCIES ! 0)"
    by (simp_all add: find_dependency)
  have a: "getExecutablePath ?l ''bun'' = (Inr None, [Log Error ''[Packaging] Unknown executable: bun''])"
    using getExecutablePath_packaged_never_throws[OF pl, of "''bun''"] fb by simp
  have kf: "getSystemArchKey ?f = ''freebsd-x64''"
    by (simp add: getSystemArchKey_def)
  have rf: "relativePathOf (PACKAGED_DEPENDENCIES ! 1) (getSystemArchKey ?f) = None"
    unfolding kf by (simp add: relativePathOf_def PACKAGED_DEPENDENCIES_def)
  have b: "getExecutablePath ?f ''node''
      = (Inr None, [Log Error ''[Packaging] No path configured for node on freebsd (freebsd-x64)''])"
    using getExecutablePath_packaged_never_throws[OF pf, of "''node''"] fn rf kf by simp
  have nu: "\<not> existsSync ?l uvBundlePath" and nn: "\<not> existsSync ?l nodeBundlePath"
    by simp_all
  have c: "fst (getExecutablePath ?l ''uv'') = Inr None"
    using getExecutablePath_packaged_never_throws[OF pl, of "''uv''"] fu
      linux_uv_rel[of "''x64''" True None "[]"] linux_uv_path[of "''linux''" "''x64''" True None "[]"] nu
    by auto
  have d: "fst (getExecutablePath ?l ''node'') = Inr (Some ''node'')"
    using getExecutablePath_packaged_never_throws[OF pl, of "''node''"] fn
      linux_node_rel[of "''x64''" True None "[]"] linux_node_path[of "''linux''" "''x64''" True None "[]"] nn
    by auto
  have re: "relativePathOf (PACKAGED_DEPENDENCIES ! 1) (getSystemArchKey ?e)
      = Some ''vendor/node-linux-x64/node-v20.18.0-linux-x64/bin/node''"
    by (simp add: relativePathOf_def PACKAGED_DEPENDENCIES_def getSystemArchKey_def)
  have je: "nodeBundlePath = join ?e [resourcesPath ?e, ''app.asar.unpacked'',
      ''vendor/node-linux-x64/node-v20.18.0-linux-x64/bin/node'']"
    by (simp add: joinPosix_def nodeBundlePath_def)
  have xe: "existsSync ?e nodeBundlePath" and se: "stat ?e nodeBundlePath = Inl (IOError ''EACCES'')"
    by simp_all
  have e: "fst (getExecutablePath ?e ''node'') = Inr (Some ''node'')"
    using getExecutablePath_packaged_never_throws[OF pe, of "''node''"] fn re je xe se
    by blast
  show ?thesis using pl a b c d e by simp
qed

text \<open>
  C10. In packaged mode on \<open>darwin\<close>, \<open>linux\<close> and \<open>win32\<close>, every dependency of the table
  has a path for the platform-arch key, and \<open>getExecutablePath("node")\<close> neither throws nor
  returns \<open>undefined\<close>: it returns the absolute bundle path or the bare string \<open>node\<close>, the
  latter in particular when the bundle file is missing.
\<close>

theorem node_never_unavailable:
  assumes "isPackaged h" and "platform h \<in> {''darwin'', ''linux'', ''win32''}"
  shows "(\<forall>dep \<in> set PACKAGED_DEPENDENCIES. \<exists>rel. relativePathOf dep (getSystemArchKey h) = Some rel)
    \<and> (\<exists>rel. relativePathOf (PACKAGED_DEPENDENCIES ! 1) (getSystemArchKey h) = Some rel
         \<and> (fst (getExecutablePath h ''node'')
               = Inr (Some (join h [resourcesPath h, ''app.asar.unpacked'', rel]))
             \<or> fst (getExecutablePath h ''node'') = Inr (Some ''node''))
         \<and> (\<not> existsSync h (join h [resourcesPath h, ''app.asar.unpacked'', rel]) \<longrightarrow>
               fst (getExecutablePath h ''node'') = Inr (Some ''node'')))
    \<and> fst (getExecutablePath h ''node'') \<noteq> Inr None
    \<and> (\<forall>e. fst (getExecutablePath h ''node'') \<noteq> Inl e)"
proof -
  have key: "getSystemArchKey h \<in> {''darwin-arm64'', ''darwin-x64'', ''linux-x64'', ''win32-x64''}"
    using assms(2) by (rule supported_key)
  have all: "\<forall>dep \<in> set PACKAGED_DEPENDENCIES. \<exists>rel. relativePathOf dep (getSystemArchKey h) = Some rel"
    using table_complete[OF key] by blast
  have mem: "PACKAGED_DEPENDENCIES ! 1 \<in> set PACKAGED_DEPENDENCIES"
    by (simp add: PACKAGED_DEPENDENCIES_def)
  obtain rel where rel: "relativePathOf (PACKAGED_DEPENDENCIES ! 1) (getSystemArchKey h) = Some rel"
    using all mem by blast
  have f: "find (\<lambda>d. name d = ''node'') PACKAGED_DEPENDENCIES = Some (PACKAGED_DEPENDENCIES ! 1)"
    by (simp add: find_dependency)
  let ?p = "join h [resourcesPath h, ''app.asar.unpacked'', rel]"
  have res: "fst (getExecutablePath h ''node'') = Inr (Some ?p)
      \<or> fst (getExecutablePath h ''node'') = Inr (Some ''node'')"
  proof (cases "existsSync h ?p")
    case True
    then show ?thesis by (rule packaged_exists_result[OF assms(1) f rel refl])
  next
    case False
    then show ?thesis using packaged_missing_result[OF assms(1) f rel refl] by simp
  qed
  have miss: "\<not> existsSync h ?p \<longrightarrow> fst (getExecutablePath h ''node'') = Inr (Some ''node'')"
    using packaged_missing_result[OF assms(1) f rel refl] by simp
  have "fst (getExecutablePath h ''node'') \<noteq> Inr None"
    and "\<forall>e. fst (getExecutablePath h ''node'') \<noteq> Inl e"
    using res by auto
  then show ?thesis using all rel res miss by blast
qed

theorem node_never_unavailable_witness:
  "isPackaged (hostWith ''win32'' ''arm64'' True None [])
   \<and> platform (hostWith ''win32'' ''arm64'' True None []) \<in> {''darwin'', ''linux'', ''win32''}
   \<and> fst (getExecutablePath (hostWith ''win32'' ''arm64'' True None []) ''node'') = Inr (Some ''node'')
   \<and> fst (getExecutablePath (hostWith ''win32'' ''arm64'' True None []) ''node'') \<noteq> Inr None
   \<and> (\<forall>e. fst (getExecutablePath (hostWith ''win32'' ''arm64'' True None []) ''node'') \<noteq> Inl e)"
proof -
  let ?h = "hostWith ''win32'' ''arm64'' True None []"
  have 1: "isPackaged ?h" by simp
  have 2: "platform ?h \<in> {''darwin'', ''linux'', ''win32''}" by simp
  have 3: "\<forall>q. \<not> existsSync ?h q" by simp
  show ?thesis using node_never_unavailable[OF 1 2] 1 2 3 by blast
qed

subsection \<open>The search-path builder\<close>

text \<open>
  C7, as the code has it. When the packaged flag is false, \<open>buildEnhancedPath\<close> makes no
  bundle lookup (no file-system call, no log call) and returns the inherited search path
  unchanged whenever that path has a character that is not white space. An inherited path
  that is unset, empty or made of white space only gives the empty string.
\<close>

theorem buildEnhancedPath_development:
  assumes "\<not> isPackaged h"
  shows "buildEnhancedPath h = (if trimTruthy (basePath h) then basePath h else [], [])"
  using assms
  by (simp add: buildEnhancedPath_def uniquePaths_def pathParts_development arrayFromSet_def)

theorem buildEnhancedPath_development_witness:
  "\<not> isPackaged (hostWith ''linux'' ''x64'' False (Some ''/usr/local/bin:/usr/bin'') [])
   \<and> buildEnhancedPath (hostWith ''linux'' ''x64'' False (Some ''/usr/local/bin:/usr/bin'') [])
       = (''/usr/local/bin:/usr/bin'', [])
   \<and> buildEnhancedPath (hostWith ''linux'' ''x64'' False None []) = ([], [])"
proof -
  let ?h = "hostWith ''linux'' ''x64'' False (Some ''/usr/local/bin:/usr/bin'') []"
  let ?g = "hostWith ''linux'' ''x64'' False None []"
  have 1: "\<not> isPackaged ?h" and 2: "\<not> isPackaged ?g" by simp_all
  have 3: "trimTruthy (basePath ?h)" "basePath ?h = ''/usr/local/bin:/usr/bin''"
    by (simp_all add: basePath_def trimTruthy_def isWhiteSpace_def)
  have 4: "\<not> trimTruthy (basePath ?g)"
    by (simp add: basePath_def trimTruthy_def)
  show ?thesis
    using buildEnhancedPath_development[OF 1] buildEnhancedPath_development[OF 2] 1 3 4 by simp
qed

text \<open>
  C7 as stated makes the builder the identity on the inherited path in development mode.
  With \<open>PATH\<close> set to a single space the builder returns the empty string: the filter
  \<open>p.trim()\<close> drops the entry.
\<close>

theorem blank_path_not_preserved:
  "\<not> isPackaged (hostWith ''linux'' ''x64'' False (Some '' '') [])
   \<and> envPATH (hostWith ''linux'' ''x64'' False (Some '' '') []) = Some '' ''
   \<and> fst (buildEnhancedPath (hostWith ''linux'' ''x64'' False (Some '' '') [])) = []
   \<and> fst (buildEnhancedPath (hostWith ''linux'' ''x64'' False (Some '' '') [])) \<noteq> '' ''"
  by (simp add: buildEnhancedPath_def uniquePaths_def pathParts_development arrayFromSet_def
      basePath_def trimTruthy_def isWhiteSpace_def)

text \<open>
  C3, as the code has it. \<open>buildEnhancedPath\<close> joins, with the platform's separator, an
  array of parts that has no duplicate and no blank part: the directories of the bundle
  files that exist (a dependency declared later comes first), then the inherited search
  path as one single part, each kept at its first occurrence. When the inherited path is
  not blank and differs from every bundle directory, it is the last part and the returned
  string ends with it. The inherited path is never split into its directories.
\<close>

theorem buildEnhancedPath_parts:
  "fst (buildEnhancedPath h) = joinWith (pathSeparator h) (uniquePaths h)
   \<and> uniquePaths h = arrayFromSet (filter trimTruthy (bundleDirs h @ [basePath h]))
   \<and> distinct (uniquePaths h)
   \<and> (\<forall>p \<in> set (uniquePaths h). trimTruthy p)
   \<and> (trimTruthy (basePath h) \<and> basePath h \<notin> set (bundleDirs h) \<longrightarrow>
        uniquePaths h = arrayFromSet (filter trimTruthy (bundleDirs h)) @ [basePath h]
        \<and> last (uniquePaths h) = basePath h
        \<and> suffix (basePath h) (fst (buildEnhancedPath h)))"
proof (intro conjI impI)
  show "fst (buildEnhancedPath h) = joinWith (pathSeparator h) (uniquePaths h)"
    by (simp add: buildEnhancedPath_def)
  show eq: "uniquePaths h = arrayFromSet (filter trimTruthy (bundleDirs h @ [basePath h]))"
    by (simp add: uniquePaths_def pathParts_fst)
  show "distinct (uniquePaths h)"
    by (simp add: uniquePaths_def distinct_arrayFromSet)
  show "\<forall>p \<in> set (uniquePaths h). trimTruthy p"
    by (simp add: uniquePaths_def set_arrayFromSet)
next
  assume a: "trimTruthy (basePath h) \<and> basePath h \<notin> set (bundleDirs h)"
  then show snoc: "uniquePaths h = arrayFromSet (filter trimTruthy (bundleDirs h)) @ [basePath h]"
    by (simp add: uniquePaths_eq arrayFromSet_snoc)
  then show "last (uniquePaths h) = basePath h"
    by simp
  have "uniquePaths h \<noteq> []" using snoc by simp
  from joinWith_suffix_last[OF this, of "pathSeparator h"]
  show "suffix (basePath h) (fst (buildEnhancedPath h))"
    using snoc by (simp add: buildEnhancedPath_def)
qed

theorem buildEnhancedPath_parts_witness:
  "trimTruthy (basePath (hostWith ''linux'' ''x64'' True (Some ''/usr/bin'')
       [(nodeBundlePath, 5000000, ''ELF''), (uvBundlePath, 5000000, ''ELF'')]))
   \<and> basePath (hostWith ''linux'' ''x64'' True (Some ''/usr/bin'')
       [(nodeBundlePath, 5000000, ''ELF''), (uvBundlePath, 5000000, ''ELF'')])
      \<notin> set (bundleDirs (hostWith ''linux'' ''x64'' True (Some ''/usr/bin'')
       [(nodeBundlePath, 5000000, ''ELF''), (uvBundlePath, 5000000, ''ELF'')]))
   \<and> uniquePaths (hostWith ''linux'' ''x64'' True (Some ''/usr/bin'')
       [(nodeBundlePath, 5000000, ''ELF''), (uvBundlePath, 5000000, ''ELF'')])
      = [nodeBundleDir, uvBundleDir, ''/usr/bin'']
   \<and> fst (buildEnhancedPath (hostWith ''linux'' ''x64'' True (Some ''/usr/bin'')
       [(nodeBundlePath, 5000000, ''ELF''), (uvBundlePath, 5000000, ''ELF'')]))
      = nodeBundleDir @ '':'' @ uvBundleDir @ '':'' @ ''/usr/bin''"
proof -
  let ?h = "hostWith ''linux'' ''x64'' True (Some ''/usr/bin'')
       [(nodeBundlePath, 5000000, ''ELF''), (uvBundlePath, 5000000, ''ELF'')]"
  have b: "basePath ?h = ''/usr/bin''"
    by (simp add: basePath_def)
  have t: "trimTruthy (basePath ?h)"
    unfolding b by (simp add: trimTruthy_def isWhiteSpace_def)
  have d: "bundleDirs ?h = [nodeBundleDir, uvBundleDir]"
    by (rule both_bundles_dirs)
  have n: "basePath ?h \<notin> set (bundleDirs ?h)"
    unfolding b d by (simp add: nodeBundleDir_def uvBundleDir_def)
  have a: "arrayFromSet (filter trimTruthy (bundleDirs ?h)) = [nodeBundleDir, uvBundleDir]"
    unfolding d using bundle_dirs_facts(1) by (simp add: bundle_dirs_facts(2,3) arrayFromSet_def)
  have s: "pathSeparator ?h = '':''"
    by (simp add: pathSeparator_def)
  from buildEnhancedPath_parts[of ?h] t n
  have u: "uniquePaths ?h = arrayFromSet (filter trimTruthy (bundleDirs ?h)) @ [basePath ?h]"
    and r: "fst (buildEnhancedPath ?h) = joinWith (pathSeparator ?h) (uniquePaths ?h)"
    by blast+
  have u': "uniquePaths ?h = [nodeBundleDir, uvBundleDir, ''/usr/bin'']"
    unfolding u a b by simp
  have "fst (buildEnhancedPath ?h) = nodeBundleDir @ '':'' @ uvBundleDir @ '':'' @ ''/usr/bin''"
    unfolding r u' s by simp
  then show ?thesis using t n u' by blast
qed

text \<open>
  C3 as stated speaks of the directory entries of the returned string and of its final
  entry. In development mode the inherited path \<open>/usr/bin:/usr/bin\<close> is returned as it
  is, so the string has the entry \<open>/usr/bin\<close> twice. In packaged mode with both bundles
  present and an inherited path equal to the directory of the \<open>node\<close> bundle, the set keeps
  the first occurrence only and the final entry of the string is the directory of the
  \<open>uv\<close> bundle, not the inherited path.
\<close>

theorem inherited_path_not_split:
  "\<not> distinct (pathEntries (CHR '':'')
        (fst (buildEnhancedPath (hostWith ''linux'' ''x64'' False (Some ''/usr/bin:/usr/bin'') []))))
   \<and> envPATH (hostWith ''linux'' ''x64'' True (Some nodeBundleDir)
         [(nodeBundlePath, 5000000, ''ELF''), (uvBundlePath, 5000000, ''ELF'')]) = Some nodeBundleDir
   \<and> last (pathEntries (CHR '':'')
        (fst (buildEnhancedPath (hostWith ''linux'' ''x64'' True (Some nodeBundleDir)
           [(nodeBundlePath, 5000000, ''ELF''), (uvBundlePath, 5000000, ''ELF'')])))) = uvBundleDir
   \<and> uvBundleDir \<noteq> nodeBundleDir"
proof -
  let ?g = "hostWith ''linux'' ''x64'' False (Some ''/usr/bin:/usr/bin'') []"
  let ?h = "hostWith ''linux'' ''x64'' True (Some nodeBundleDir)
       [(nodeBundlePath, 5000000, ''ELF''), (uvBundlePath, 5000000, ''ELF'')]"
  have g: "pathEntries (CHR '':'') (fst (buildEnhancedPath ?g)) = [''/usr/bin'', ''/usr/bin'']"
    by (simp add: buildEnhancedPath_def uniquePaths_def pathParts_development arrayFromSet_def
        basePath_def trimTruthy_def isWhiteSpace_def pathSeparator_def)
  have b: "basePath ?h = nodeBundleDir"
    by (simp add: basePath_def)
  have d: "bundleDirs ?h = [nodeBundleDir, uvBundleDir]"
    by (rule both_bundles_dirs)
  have u: "uniquePaths ?h = [nodeBundleDir, uvBundleDir]"
    unfolding uniquePaths_eq d b using bundle_dirs_facts(1)
    by (simp add: bundle_dirs_facts(2,3) arrayFromSet_def)
  have r: "fst (buildEnhancedPath ?h) = nodeBundleDir @ CHR '':'' # uvBundleDir"
    by (simp add: buildEnhancedPath_def u pathSeparator_def)
  have l: "last (pathEntries (CHR '':'') (fst (buildEnhancedPath ?h))) = uvBundleDir"
    unfolding r by (rule pathEntries_last) (rule bundle_dirs_facts(4))
  show ?thesis
    using g l bundle_dirs_facts(1) by simp
qed

subsection \<open>The liveness check\<close>

text \<open>
  C2. The claim: when the timeout elapses before the probe process exits, the promise
  resolves to \<open>false\<close> and the child is killed. The code resolves to \<open>false\<close>, but it never
  calls \<open>process.kill\<close>: \<open>resolveWith\<close> sets \<open>isResolved\<close> before it calls \<open>cleanup\<close>,
  and \<open>cleanup\<close> kills only while \<open>isResolved\<close> is still false. The theorem evaluates
  the handlers when the timer fires first (whatever events follow), for a child that
  delivers no event at all, and for every sequence of events: the number of \<open>kill\<close> calls
  is 0 in each case.
\<close>

theorem timeout_resolves_false_but_never_kills:
  "settled (runProbe (OnTimeout # evs)) = Some False
   \<and> kills (runProbe (OnTimeout # evs)) = 0
   \<and> validateExecutable (\<lambda>c. []) cmd = Some False
   \<and> kills (probeOf (\<lambda>c. []) cmd) = 0
   \<and> kills (probeOf spawned cmd) = 0"
proof -
  have s1: "handle OnTimeout probe0 = probe0\<lparr>isResolved := True, settled := Some False\<rparr>"
    by (simp add: probe0_def resolveWith_unresolved)
  have i1: "probeInv (handle OnTimeout probe0)"
    by (rule probeInv_handle[OF probeInv_probe0])
  have "settled (handle OnTimeout probe0) = Some False"
    unfolding s1 by simp
  then have a: "settled (runProbe (OnTimeout # xs)) = Some False" for xs
    using foldl_keeps_settled[OF i1, of False xs] by (simp add: runProbe_def)
  have k: "kills (runProbe xs) = 0" for xs
    by (simp add: runProbe_def runProbe_from_kills probe0_def)
  have c: "validateExecutable (\<lambda>c. []) cmd = Some False"
    using a[of "[]"] by (simp add: validateExecutable_def probeOf_def)
  show ?thesis
    using a k c by (simp add: probeOf_def)
qed

subsection \<open>The validation report\<close>

text \<open>
  C9. \<open>getValidationReport\<close> always returns a report, and for every declared dependency
  the entry under its name has as \<open>available\<close> the result of \<open>validateExecutable\<close> on the
  bare name \<open>dep.name\<close>, and as \<open>path\<close> the result of \<open>getExecutablePath\<close>. The liveness
  check is not run on the resolved path: on a machine where only \<open>uv\<close> and the bundled
  \<open>node\<close> binary run, \<open>node\<close> is reported with its absolute bundle path and
  \<open>available = false\<close>, and \<open>uv\<close>, whose bundle file is missing, with no path and
  \<open>available = true\<close>.
\<close>

theorem getValidationReport_available:
  "\<exists>rep tr. getValidationReport h spawned = (Some (Inr rep), tr)
     \<and> report_platform rep = platform h \<and> report_isPackaged rep = isPackaged h
     \<and> (\<forall>dep \<in> set PACKAGED_DEPENDENCIES. \<exists>e.
           dependencies rep (name dep) = Some e
           \<and> validateExecutable spawned (name dep) = Some (available e)
           \<and> fst (getExecutablePath h (name dep)) = Inr (path e))"
proof -
  obtain pu tu where u: "getExecutablePath h ''uv'' = (Inr pu, tu)"
    using getExecutablePath_returns[of h "''uv''"] by (cases "getExecutablePath h ''uv''") auto
  obtain pn tn where n: "getExecutablePath h ''node'' = (Inr pn, tn)"
    using getExecutablePath_returns[of h "''node''"] by (cases "getExecutablePath h ''node''") auto
  obtain au where au: "validateExecutable spawned ''uv'' = Some au"
    using validateExecutable_settles by blast
  obtain an where an: "validateExecutable spawned ''node'' = Some an"
    using validateExecutable_settles by blast
  obtain tr where r: "getValidationReport h spawned =
    (Some (Inr \<lparr>report_platform = platform h, report_isPackaged = isPackaged h,
        dependencies = [''uv'' \<mapsto> \<lparr>path = pu, available = au\<rparr>,
                        ''node'' \<mapsto> \<lparr>path = pn, available = an\<rparr>]\<rparr>), tr)"
    using getValidationReport_unfold[OF u n au an] by blast
  have "\<forall>dep \<in> set PACKAGED_DEPENDENCIES. \<exists>e.
      [''uv'' \<mapsto> \<lparr>path = pu, available = au\<rparr>, ''node'' \<mapsto> \<lparr>path = pn, available = an\<rparr>] (name dep) = Some e
      \<and> validateExecutable spawned (name dep) = Some (available e)
      \<and> fst (getExecutablePath h (name dep)) = Inr (path e)"
    by (simp add: PACKAGED_DEPENDENCIES_def u n au an)
  then show ?thesis
    unfolding r by simp
qed

theorem getValidationReport_available_witness:
  "\<exists>rep tr.
     getValidationReport
       (hostWith ''linux'' ''x64'' True (Some ''/usr/bin'') [(nodeBundlePath, 5000000, ''ELF'')])
       uvAndBundleRun = (Some (Inr rep), tr)
     \<and> dependencies rep ''node'' = Some \<lparr>path = Some nodeBundlePath, available = False\<rparr>
     \<and> dependencies rep ''uv'' = Some \<lparr>path = None, available = True\<rparr>
     \<and> validateExecutable uvAndBundleRun nodeBundlePath = Some True"
proof -
  let ?h = "hostWith ''linux'' ''x64'' True (Some ''/usr/bin'') [(nodeBundlePath, 5000000, ''ELF'')]"
  have nb: "''node'' \<noteq> nodeBundlePath" "nodeBundlePath \<noteq> uvBundlePath" "''node'' \<noteq> ''uv''"
    by (simp_all add: nodeBundlePath_def uvBundlePath_def)
  have sn: "uvAndBundleRun ''node'' = [OnError]"
    using nb by (simp add: uvAndBundleRun_def)
  have su: "uvAndBundleRun ''uv'' = [OnExit (Some 0), OnClose (Some 0)]"
    and sp: "uvAndBundleRun nodeBundlePath = [OnExit (Some 0), OnClose (Some 0)]"
    by (simp_all add: uvAndBundleRun_def)
  have vn: "validateExecutable uvAndBundleRun ''node'' = Some False"
    by (simp add: validateExecutable_events[of uvAndBundleRun, OF sn] runProbe_error)
  have vu: "validateExecutable uvAndBundleRun ''uv'' = Some True"
    by (simp add: validateExecutable_events[of uvAndBundleRun, OF su] runProbe_exit_zero)
  have vp: "validateExecutable uvAndBundleRun nodeBundlePath = Some True"
    by (simp add: validateExecutable_events[of uvAndBundleRun, OF sp] runProbe_exit_zero)
  have fn: "find (\<lambda>d. name d = ''node'') PACKAGED_DEPENDENCIES = Some (PACKAGED_DEPENDENCIES ! 1)"
    and fu: "find (\<lambda>d. name d = ''uv'') PACKAGED_DEPENDENCIES = Some (PACKAGED_DEPENDENCIES ! 0)"
    by (simp_all add: find_dependency)
  have p: "isPackaged ?h" by simp
  have xn: "existsSync ?h nodeBundlePath" and st: "stat ?h nodeBundlePath = Inr 5000000"
    by simp_all
  have xu: "\<not> existsSync ?h uvBundlePath"
    using nb by (simp add: fileAt_def)
  have gn: "fst (getExecutablePath ?h ''node'') = Inr (Some nodeBundlePath)"
    using xn by (simp add: getExecutablePath_packaged[OF p fn linux_node_rel linux_node_path]
        tryValidate_big[OF st])
  have gu: "fst (getExecutablePath ?h ''uv'') = Inr None"
    using packaged_missing_result[OF p fu linux_uv_rel linux_uv_path xu] by simp
  from getValidationReport_available[of ?h uvAndBundleRun]
  obtain rep where "\<exists>tr. getValidationReport ?h uvAndBundleRun = (Some (Inr rep), tr)
     \<and> report_platform rep = platform ?h \<and> report_isPackaged rep = isPackaged ?h
     \<and> (\<forall>dep \<in> set PACKAGED_DEPENDENCIES. \<exists>e.
           dependencies rep (name dep) = Some e
           \<and> validateExecutable uvAndBundleRun (name dep) = Some (available e)
           \<and> fst (getExecutablePath ?h (name dep)) = Inr (path e))" ..
  then obtain tr where T: "getValidationReport ?h uvAndBundleRun = (Some (Inr rep), tr)
     \<and> report_platform rep = platform ?h \<and> report_isPackaged rep = isPackaged ?h
     \<and> (\<forall>dep \<in> set PACKAGED_DEPENDENCIES. \<exists>e.
           dependencies rep (name dep) = Some e
           \<and> validateExecutable uvAndBundleRun (name dep) = Some (available e)
           \<and> fst (getExecutablePath ?h (name dep)) = Inr (path e))" ..
  note r = T[THEN conjunct1] and all = T[THEN conjunct2, THEN conjunct2, THEN conjunct2]
  have m1: "PACKAGED_DEPENDENCIES ! 1 \<in> set PACKAGED_DEPENDENCIES"
    and m0: "PACKAGED_DEPENDENCIES ! 0 \<in> set PACKAGED_DEPENDENCIES"
    and n1: "name (PACKAGED_DEPENDENCIES ! 1) = ''node''"
    and n0: "name (PACKAGED_DEPENDENCIES ! 0) = ''uv''"
    by (simp_all add: PACKAGED_DEPENDENCIES_def)
  from bspec[OF all m1] obtain en where
    "dependencies rep (name (PACKAGED_DEPENDENCIES ! 1)) = Some en
      \<and> validateExecutable uvAndBundleRun (name (PACKAGED_DEPENDENCIES ! 1)) = Some (available en)
      \<and> fst (getExecutablePath ?h (name (PACKAGED_DEPENDENCIES ! 1))) = Inr (path en)" ..
  then have en: "dependencies rep ''node'' = Some en" "available en = False" "path en = Some nodeBundlePath"
    unfolding n1 vn gn by simp_all
  from bspec[OF all m0] obtain eu where
    "dependencies rep (name (PACKAGED_DEPENDENCIES ! 0)) = Some eu
      \<and> validateExecutable uvAndBundleRun (name (PACKAGED_DEPENDENCIES ! 0)) = Some (available eu)
      \<and> fst (getExecutablePath ?h (name (PACKAGED_DEPENDENCIES ! 0))) = Inr (path eu)" ..
  then have eu: "dependencies rep ''uv'' = Some eu" "available eu = True" "path eu = None"
    unfolding n0 vu gu by simp_all
  have "en = \<lparr>path = Some nodeBundlePath, available = False\<rparr>"
    using en(2,3) by (cases en) simp
  moreover have "eu = \<lparr>path = None, available = True\<rparr>"
    using eu(2,3) by (cases eu) simp
  ultimately have "getValidationReport ?h uvAndBundleRun = (Some (Inr rep), tr)
     \<and> dependencies rep ''node'' = Some \<lparr>path = Some nodeBundlePath, available = False\<rparr>
     \<and> dependencies rep ''uv'' = Some \<lparr>path = None, available = True\<rparr>
     \<and> validateExecutable uvAndBundleRun nodeBundlePath = Some True"
    using r en(1) eu(1) vp by simp
  then show ?thesis by (intro exI)
qed

end
